theory Spec2Isabelle
  imports Complex_Main "HOL-Library.Word"
begin

unbundle bit_operations_syntax

section \<open>Values and declared types\<close>

text \<open>
  The shared package of strixcraft.io (\<^verbatim>\<open>shared/src/protocol.ts\<close>,
  \<^verbatim>\<open>shared/src/types.ts\<close>) consists of TypeScript declarations: string enums,
  interfaces and one union. A declaration is embedded as the value it declares: an
  interface is its list of members (name, optional mark, member type), a string enum is a
  datatype with the string each member stands for, a union is the list of its
  alternatives. What crosses the wire is a JavaScript value; \<open>has_type\<close> decides whether
  a value is well-formed for a declared type (structurally, as TypeScript does: members an
  interface does not declare are allowed, a required member must be present with its
  type, an optional member may be missing or \<^verbatim>\<open>undefined\<close>). A
  \<^verbatim>\<open>Record<string, any>\<close> admits every value that is not a primitive: an object, an
  array, a typed array.

  A \<^verbatim>\<open>number\<close> is a real here: NaN and the infinities are left out, no claim
  computes with them. A \<^verbatim>\<open>Uint8Array\<close> is a list of 8-bit words.
\<close>

datatype jsval =
    VUndefined
  | VNull
  | VBool bool
  | VNum real
  | VStr string
  | VBytes "8 word list"
  | VArr "jsval list"
  | VObj "(string \<times> jsval) list"

datatype ty =
    TAny
  | TString
  | TNumber
  | TBoolean
  | TLit string
  | TUint8Array
  | TRecordAny
  | TArray ty
  | TTuple "ty list"
  | TUnion "ty list"
  | TObj "(string \<times> bool \<times> ty) list"

type_synonym field = "string \<times> bool \<times> ty"
type_synonym iface = "field list"

text \<open>\<^verbatim>\<open>name: T\<close> and \<^verbatim>\<open>name?: T\<close>.\<close>

abbreviation req :: "string \<Rightarrow> ty \<Rightarrow> field" where
  "req k t \<equiv> (k, False, t)"

abbreviation opt :: "string \<Rightarrow> ty \<Rightarrow> field" where
  "opt k t \<equiv> (k, True, t)"

function has_type :: "ty \<Rightarrow> jsval \<Rightarrow> bool" where
  "has_type TAny v = True"
| "has_type TString v = (case v of VStr s \<Rightarrow> True | _ \<Rightarrow> False)"
| "has_type TNumber v = (case v of VNum n \<Rightarrow> True | _ \<Rightarrow> False)"
| "has_type TBoolean v = (case v of VBool b \<Rightarrow> True | _ \<Rightarrow> False)"
| "has_type (TLit s) v = (v = VStr s)"
| "has_type TUint8Array v = (case v of VBytes bs \<Rightarrow> True | _ \<Rightarrow> False)"
| "has_type TRecordAny v =
     (case v of VObj kvs \<Rightarrow> True | VArr vs \<Rightarrow> True | VBytes bs \<Rightarrow> True | _ \<Rightarrow> False)"
| "has_type (TArray t) v = (case v of VArr vs \<Rightarrow> list_all (has_type t) vs | _ \<Rightarrow> False)"
| "has_type (TTuple ts) v =
     (case v of
        VArr vs \<Rightarrow> length vs = length ts \<and> list_all (\<lambda>(t, x). has_type t x) (zip ts vs)
      | _ \<Rightarrow> False)"
| "has_type (TUnion ts) v = list_ex (\<lambda>t. has_type t v) ts"
| "has_type (TObj fs) v =
     (case v of
        VObj kvs \<Rightarrow>
          list_all (\<lambda>(k, optional, t).
            case map_of kvs k of
              None \<Rightarrow> optional
            | Some x \<Rightarrow> (optional \<and> x = VUndefined) \<or> has_type t x) fs
      | _ \<Rightarrow> False)"
  by pat_completeness auto
termination
proof (relation "measure (\<lambda>(t, v). size t)", goal_cases)
  case (3 ts v vs p t x)
  then have "t \<in> set ts" by (auto dest: set_zip_leftD)
  then have "size t \<le> size_list size ts" by (rule size_list_estimation') simp
  then show ?case by simp
next
  case (4 ts v t)
  then have "t \<in> set ts" by simp
  then have "size t \<le> size_list size ts" by (rule size_list_estimation') simp
  then show ?case by simp
next
  case (5 fs v kvs f k p optional t x)
  then have "(k, optional, t) \<in> set fs" by simp
  then have "size t \<le> size_list (size_prod (\<lambda>x. 0) (size_prod (\<lambda>x. 0) size)) fs"
    by (rule size_list_estimation') simp
  then show ?case by simp
qed auto

text \<open>Reading a member: a missing member reads as \<^verbatim>\<open>undefined\<close>.\<close>

fun get_member :: "jsval \<Rightarrow> string \<Rightarrow> jsval" where
  "get_member (VObj kvs) k = (case map_of kvs k of None \<Rightarrow> VUndefined | Some x \<Rightarrow> x)"
| "get_member v k = VUndefined"

text \<open>The declared type of a member of an interface, if it declares one of that name.\<close>

definition member_type :: "iface \<Rightarrow> string \<Rightarrow> ty option" where
  "member_type fs k = (case map_of fs k of None \<Rightarrow> None | Some (optional, t) \<Rightarrow> Some t)"

definition member_names :: "iface \<Rightarrow> string list" where
  "member_names fs = map fst fs"

text \<open>The members an interface declares as \<^verbatim>\<open>number\<close>: where a counter would be.\<close>

definition number_members :: "iface \<Rightarrow> string list" where
  "number_members fs = map fst (filter (\<lambda>f. snd (snd f) = TNumber) fs)"

text \<open>The names of the members a value has (\<^verbatim>\<open>Object.keys\<close>).\<close>

fun member_keys :: "jsval \<Rightarrow> string list" where
  "member_keys (VObj kvs) = map fst kvs"
| "member_keys v = []"

text \<open>The members of a value that hold a number.\<close>

definition number_keys :: "jsval \<Rightarrow> string list" where
  "number_keys v = filter (\<lambda>k. has_type TNumber (get_member v k)) (member_keys v)"

text \<open>
  \<^verbatim>\<open>interface D extends B { own }\<close>: the members of \<open>B\<close>, a member that \<open>D\<close>
  declares again replaced by \<open>D\<close>'s declaration, then the members only \<open>D\<close> has.
\<close>

definition extends :: "iface \<Rightarrow> iface \<Rightarrow> iface" where
  "extends base own =
     map (\<lambda>f. case map_of own (fst f) of None \<Rightarrow> f | Some d \<Rightarrow> (fst f, d)) base
     @ filter (\<lambda>f. map_of base (fst f) = None) own"

section \<open>protocol.ts\<close>

datatype MessageType =
    AUTH_REQUEST | AUTH_RESPONSE
  | WORLD_LIST_REQUEST | WORLD_LIST_RESPONSE | WORLD_CREATE_REQUEST | WORLD_CREATE_RESPONSE
  | WORLD_JOIN_REQUEST | WORLD_JOIN_RESPONSE | WORLD_LEAVE_REQUEST | WORLD_DELETE_REQUEST
  | PLAYER_JOIN | PLAYER_LEAVE | PLAYER_UPDATE | PLAYER_INVENTORY_UPDATE
  | CHUNK_REQUEST | CHUNK_DATA | BLOCK_UPDATE | ENTITY_SPAWN | ENTITY_UPDATE | ENTITY_DESPAWN
  | CRAFTING_REQUEST | CRAFTING_RESPONSE | INVENTORY_ACTION | HEALTH_UPDATE | EXPERIENCE_UPDATE
  | CHAT_MESSAGE | COMMAND_REQUEST | COMMAND_RESPONSE
  | PING | PONG | ERROR | SERVER_STATS

fun MessageType_value :: "MessageType \<Rightarrow> string" where
  "MessageType_value AUTH_REQUEST = ''auth_request''"
| "MessageType_value AUTH_RESPONSE = ''auth_response''"
| "MessageType_value WORLD_LIST_REQUEST = ''world_list_request''"
| "MessageType_value WORLD_LIST_RESPONSE = ''world_list_response''"
| "MessageType_value WORLD_CREATE_REQUEST = ''world_create_request''"
| "MessageType_value WORLD_CREATE_RESPONSE = ''world_create_response''"
| "MessageType_value WORLD_JOIN_REQUEST = ''world_join_request''"
| "MessageType_value WORLD_JOIN_RESPONSE = ''world_join_response''"
| "MessageType_value WORLD_LEAVE_REQUEST = ''world_leave_request''"
| "MessageType_value WORLD_DELETE_REQUEST = ''world_delete_request''"
| "MessageType_value PLAYER_JOIN = ''player_join''"
| "MessageType_value PLAYER_LEAVE = ''player_leave''"
| "MessageType_value PLAYER_UPDATE = ''player_update''"
| "MessageType_value PLAYER_INVENTORY_UPDATE = ''player_inventory_update''"
| "MessageType_value CHUNK_REQUEST = ''chunk_request''"
| "MessageType_value CHUNK_DATA = ''chunk_data''"
| "MessageType_value BLOCK_UPDATE = ''block_update''"
| "MessageType_value ENTITY_SPAWN = ''entity_spawn''"
| "MessageType_value ENTITY_UPDATE = ''entity_update''"
| "MessageType_value ENTITY_DESPAWN = ''entity_despawn''"
| "MessageType_value CRAFTING_REQUEST = ''crafting_request''"
| "MessageType_value CRAFTING_RESPONSE = ''crafting_response''"
| "MessageType_value INVENTORY_ACTION = ''inventory_action''"
| "MessageType_value HEALTH_UPDATE = ''health_update''"
| "MessageType_value EXPERIENCE_UPDATE = ''experience_update''"
| "MessageType_value CHAT_MESSAGE = ''chat_message''"
| "MessageType_value COMMAND_REQUEST = ''command_request''"
| "MessageType_value COMMAND_RESPONSE = ''command_response''"
| "MessageType_value PING = ''ping''"
| "MessageType_value PONG = ''pong''"
| "MessageType_value ERROR = ''error''"
| "MessageType_value SERVER_STATS = ''server_stats''"

text \<open>The members of the enumeration, in the order of the source.\<close>

definition MessageType_members :: "MessageType list" where
  "MessageType_members =
     [AUTH_REQUEST, AUTH_RESPONSE,
      WORLD_LIST_REQUEST, WORLD_LIST_RESPONSE, WORLD_CREATE_REQUEST, WORLD_CREATE_RESPONSE,
      WORLD_JOIN_REQUEST, WORLD_JOIN_RESPONSE, WORLD_LEAVE_REQUEST, WORLD_DELETE_REQUEST,
      PLAYER_JOIN, PLAYER_LEAVE, PLAYER_UPDATE, PLAYER_INVENTORY_UPDATE,
      CHUNK_REQUEST, CHUNK_DATA, BLOCK_UPDATE, ENTITY_SPAWN, ENTITY_UPDATE, ENTITY_DESPAWN,
      CRAFTING_REQUEST, CRAFTING_RESPONSE, INVENTORY_ACTION, HEALTH_UPDATE, EXPERIENCE_UPDATE,
      CHAT_MESSAGE, COMMAND_REQUEST, COMMAND_RESPONSE,
      PING, PONG, ERROR, SERVER_STATS]"

text \<open>
  The type \<^verbatim>\<open>MessageType.X\<close> of one member (its values: the member's string) and
  the type \<^verbatim>\<open>MessageType\<close> of the whole enumeration.
\<close>

definition tag_type :: "MessageType \<Rightarrow> ty" where
  "tag_type m = TLit (MessageType_value m)"

definition MessageType_ty :: ty where
  "MessageType_ty = TUnion (map tag_type MessageType_members)"

definition BaseMessage :: iface where
  "BaseMessage =
     [req ''type'' MessageType_ty,
      req ''id'' TString,
      req ''timestamp'' TNumber]"

definition AuthRequestMessage :: iface where
  "AuthRequestMessage = extends BaseMessage
     [req ''type'' (tag_type AUTH_REQUEST),
      req ''username'' TString,
      req ''password'' TString]"

definition AuthResponseMessage :: iface where
  "AuthResponseMessage = extends BaseMessage
     [req ''type'' (tag_type AUTH_RESPONSE),
      req ''success'' TBoolean,
      opt ''token'' TString,
      opt ''player'' TAny,
      opt ''error'' TString]"

definition WorldListRequestMessage :: iface where
  "WorldListRequestMessage = extends BaseMessage
     [req ''type'' (tag_type WORLD_LIST_REQUEST)]"

definition WorldListResponseMessage :: iface where
  "WorldListResponseMessage = extends BaseMessage
     [req ''type'' (tag_type WORLD_LIST_RESPONSE),
      req ''worlds'' (TArray TAny)]"

definition WorldCreateRequestMessage :: iface where
  "WorldCreateRequestMessage = extends BaseMessage
     [req ''type'' (tag_type WORLD_CREATE_REQUEST),
      req ''name'' TString,
      req ''seed'' TNumber,
      req ''gameMode'' TString,
      req ''settings'' TAny]"

definition WorldCreateResponseMessage :: iface where
  "WorldCreateResponseMessage = extends BaseMessage
     [req ''type'' (tag_type WORLD_CREATE_RESPONSE),
      req ''success'' TBoolean,
      opt ''world'' TAny,
      opt ''error'' TString]"

definition WorldJoinRequestMessage :: iface where
  "WorldJoinRequestMessage = extends BaseMessage
     [req ''type'' (tag_type WORLD_JOIN_REQUEST),
      req ''worldId'' TString]"

definition WorldJoinResponseMessage :: iface where
  "WorldJoinResponseMessage = extends BaseMessage
     [req ''type'' (tag_type WORLD_JOIN_RESPONSE),
      req ''success'' TBoolean,
      opt ''world'' TAny,
      opt ''player'' TAny,
      opt ''error'' TString]"

definition PlayerJoinMessage :: iface where
  "PlayerJoinMessage = extends BaseMessage
     [req ''type'' (tag_type PLAYER_JOIN),
      req ''player'' TAny]"

definition PlayerLeaveMessage :: iface where
  "PlayerLeaveMessage = extends BaseMessage
     [req ''type'' (tag_type PLAYER_LEAVE),
      req ''playerId'' TString]"

definition PlayerUpdateMessage :: iface where
  "PlayerUpdateMessage = extends BaseMessage
     [req ''type'' (tag_type PLAYER_UPDATE),
      req ''playerId'' TString,
      req ''position'' (TTuple [TNumber, TNumber, TNumber]),
      req ''rotation'' (TTuple [TNumber, TNumber, TNumber]),
      opt ''health'' TNumber,
      opt ''hunger'' TNumber]"

definition ChunkRequestMessage :: iface where
  "ChunkRequestMessage = extends BaseMessage
     [req ''type'' (tag_type CHUNK_REQUEST),
      req ''x'' TNumber,
      req ''z'' TNumber]"

definition ChunkDataMessage :: iface where
  "ChunkDataMessage = extends BaseMessage
     [req ''type'' (tag_type CHUNK_DATA),
      req ''x'' TNumber,
      req ''z'' TNumber,
      req ''blocks'' TUint8Array,
      req ''metadata'' TUint8Array,
      req ''light'' TUint8Array]"

definition BlockUpdateMessage :: iface where
  "BlockUpdateMessage = extends BaseMessage
     [req ''type'' (tag_type BLOCK_UPDATE),
      req ''x'' TNumber,
      req ''y'' TNumber,
      req ''z'' TNumber,
      req ''blockId'' TNumber,
      opt ''metadata'' TNumber]"

definition ChatMessageMessage :: iface where
  "ChatMessageMessage = extends BaseMessage
     [req ''type'' (tag_type CHAT_MESSAGE),
      req ''sender'' TString,
      req ''content'' TString,
      req ''messageType'' (TUnion [TLit ''chat'', TLit ''system'', TLit ''command''])]"

definition CommandRequestMessage :: iface where
  "CommandRequestMessage = extends BaseMessage
     [req ''type'' (tag_type COMMAND_REQUEST),
      req ''command'' TString,
      req ''args'' (TArray TString)]"

definition CommandResponseMessage :: iface where
  "CommandResponseMessage = extends BaseMessage
     [req ''type'' (tag_type COMMAND_RESPONSE),
      req ''success'' TBoolean,
      req ''message'' TString,
      opt ''data'' TAny]"

definition PingMessage :: iface where
  "PingMessage = extends BaseMessage
     [req ''type'' (tag_type PING)]"

definition PongMessage :: iface where
  "PongMessage = extends BaseMessage
     [req ''type'' (tag_type PONG),
      req ''timestamp'' TNumber]"

definition ErrorMessage :: iface where
  "ErrorMessage = extends BaseMessage
     [req ''type'' (tag_type ERROR),
      req ''error'' TString,
      opt ''code'' TNumber]"

text \<open>The union \<^verbatim>\<open>NetworkMessage\<close> of protocol.ts: its alternatives, in order.\<close>

definition NetworkMessage :: "iface list" where
  "NetworkMessage =
     [AuthRequestMessage, AuthResponseMessage,
      WorldListRequestMessage, WorldListResponseMessage,
      WorldCreateRequestMessage, WorldCreateResponseMessage,
      WorldJoinRequestMessage, WorldJoinResponseMessage,
      PlayerJoinMessage, PlayerLeaveMessage, PlayerUpdateMessage,
      ChunkRequestMessage, ChunkDataMessage, BlockUpdateMessage,
      ChatMessageMessage, CommandRequestMessage, CommandResponseMessage,
      PingMessage, PongMessage, ErrorMessage]"

definition NetworkMessage_ty :: ty where
  "NetworkMessage_ty = TUnion (map TObj NetworkMessage)"

text \<open>
  The payload shapes the union holds for a type tag: the alternatives whose
  \<^verbatim>\<open>type\<close> member is declared as that member of the enumeration.
\<close>

definition shapes_for :: "MessageType \<Rightarrow> iface list" where
  "shapes_for m = filter (\<lambda>s. member_type s ''type'' = Some (tag_type m)) NetworkMessage"

section \<open>types.ts\<close>

datatype GameMode = SURVIVAL | CREATIVE

fun GameMode_value :: "GameMode \<Rightarrow> string" where
  "GameMode_value SURVIVAL = ''survival''"
| "GameMode_value CREATIVE = ''creative''"

definition GameMode_ty :: ty where
  "GameMode_ty = TUnion (map (\<lambda>g. TLit (GameMode_value g)) [SURVIVAL, CREATIVE])"

definition InventoryItem :: iface where
  "InventoryItem =
     [req ''id'' TNumber,
      req ''count'' TNumber,
      opt ''metadata'' TRecordAny]"

definition Player :: iface where
  "Player =
     [req ''id'' TString,
      req ''username'' TString,
      req ''position'' (TTuple [TNumber, TNumber, TNumber]),
      req ''rotation'' (TTuple [TNumber, TNumber, TNumber]),
      req ''health'' TNumber,
      req ''maxHealth'' TNumber,
      req ''hunger'' TNumber,
      req ''maxHunger'' TNumber,
      req ''experience'' TNumber,
      req ''level'' TNumber,
      req ''inventory'' (TArray (TObj InventoryItem)),
      req ''selectedSlot'' TNumber,
      req ''gameMode'' GameMode_ty]"

definition ChatMessage :: iface where
  "ChatMessage =
     [req ''id'' TString,
      req ''sender'' TString,
      req ''content'' TString,
      req ''timestamp'' TString,
      req ''type'' (TUnion [TLit ''chat'', TLit ''system'', TLit ''command''])]"

definition WorldSettings :: iface where
  "WorldSettings =
     [req ''name'' TString,
      req ''seed'' TNumber,
      req ''gameMode'' GameMode_ty,
      req ''maxPlayers'' TNumber,
      req ''allowPvP'' TBoolean,
      req ''allowMobGriefing'' TBoolean,
      req ''keepInventory'' TBoolean,
      req ''naturalRegeneration'' TBoolean,
      req ''difficulty'' (TUnion [TLit ''peaceful'', TLit ''easy'', TLit ''normal'', TLit ''hard''])]"

definition ChunkData :: iface where
  "ChunkData =
     [req ''x'' TNumber,
      req ''z'' TNumber,
      req ''blocks'' TUint8Array,
      req ''metadata'' TUint8Array,
      req ''light'' TUint8Array]"

definition Entity :: iface where
  "Entity =
     [req ''id'' TString,
      req ''type'' TString,
      req ''position'' (TTuple [TNumber, TNumber, TNumber]),
      req ''rotation'' (TTuple [TNumber, TNumber, TNumber]),
      req ''velocity'' (TTuple [TNumber, TNumber, TNumber]),
      req ''health'' TNumber,
      req ''maxHealth'' TNumber,
      req ''metadata'' TRecordAny]"

text \<open>
  types.ts declares an interface \<^verbatim>\<open>NetworkMessage\<close> of its own, next to the union of
  that name in protocol.ts.
\<close>

definition types_NetworkMessage :: iface where
  "types_NetworkMessage =
     [req ''type'' TString,
      req ''payload'' TAny,
      req ''timestamp'' TNumber]"

section \<open>Typed arrays\<close>

text \<open>
  An element of a \<^verbatim>\<open>Uint8Array\<close> is an 8-bit unsigned integer. Storing an integer
  converts it modulo \<open>2 ^ 8\<close>; an index outside the array stores nothing and reads
  \<^verbatim>\<open>undefined\<close> (here \<open>None\<close>).
\<close>

definition uint8array_set :: "8 word list \<Rightarrow> nat \<Rightarrow> int \<Rightarrow> 8 word list" where
  "uint8array_set a i n = (if i < length a then a[i := word_of_int n] else a)"

definition uint8array_get :: "8 word list \<Rightarrow> nat \<Rightarrow> int option" where
  "uint8array_get a i = (if i < length a then Some (uint (a ! i)) else None)"

section \<open>Chunk codec\<close>

text \<open>
  Modelled from the spec: the codec (\<open>encode\<close>, \<open>decode\<close>) is not in the sources, which
  declare the chunk payload only (\<^verbatim>\<open>ChunkData\<close>). The spec's words: a chunk payload
  is a header (coordinates, format version), then the block-id array (one unit per
  voxel), the metadata array (one byte per voxel) and the light array (sky and block
  light packed in one byte per voxel); array lengths are fixed by the chunk volume;
  decoding a truncated or length-mismatched buffer fails with \<open>MalformedPayload\<close>.
  The declared arrays are \<^verbatim>\<open>Uint8Array\<close>s, so a unit is a byte. The spec gives no
  width for a coordinate: the model writes it as a 32-bit two's complement integer, most
  significant byte first, and the version as one byte. The chunk volume is a parameter.
\<close>

datatype DecodeError = MalformedPayload | UnknownMessageType

text \<open>\<^verbatim>\<open>ChunkData\<close> of types.ts as a record, the coordinates being integers.\<close>

record chunk =
  chunk_x :: int
  chunk_z :: int
  chunk_blocks :: "8 word list"
  chunk_metadata :: "8 word list"
  chunk_light :: "8 word list"

definition js_of_chunk :: "chunk \<Rightarrow> jsval" where
  "js_of_chunk c =
     VObj [(''x'', VNum (of_int (chunk_x c))),
           (''z'', VNum (of_int (chunk_z c))),
           (''blocks'', VBytes (chunk_blocks c)),
           (''metadata'', VBytes (chunk_metadata c)),
           (''light'', VBytes (chunk_light c))]"

text \<open>
  Modelled from the spec: the header's format version, whose number the spec does not
  give.
\<close>

definition chunk_format_version :: "8 word" where
  "chunk_format_version = 1"

text \<open>
  Modelled from the spec: a coordinate of the header, written and read as four bytes.
\<close>

definition encode_i32 :: "int \<Rightarrow> 8 word list" where
  "encode_i32 n =
     (let w = (word_of_int n :: 32 word)
      in [ucast (drop_bit 24 w), ucast (drop_bit 16 w), ucast (drop_bit 8 w), ucast w])"

fun decode_i32 :: "8 word list \<Rightarrow> int" where
  "decode_i32 [a, b, c, d] =
     sint (push_bit 24 (ucast a) OR push_bit 16 (ucast b) OR push_bit 8 (ucast c) OR ucast d
           :: 32 word)"
| "decode_i32 bs = 0"

definition header_length :: nat where
  "header_length = 4 + 4 + 1"

text \<open>
  Modelled from the spec: \<open>encode\<close> for a chunk payload, missing from the sources. Header
  (coordinates, format version), block-id array, metadata array, light array.
\<close>

definition encode_chunk :: "chunk \<Rightarrow> 8 word list" where
  "encode_chunk c =
     encode_i32 (chunk_x c) @ encode_i32 (chunk_z c) @ [chunk_format_version]
     @ chunk_blocks c @ chunk_metadata c @ chunk_light c"

text \<open>
  Modelled from the spec: \<open>decode\<close> for a chunk payload, missing from the sources. A
  buffer shorter or longer than the header and three arrays of the chunk volume is
  \<open>MalformedPayload\<close>; the spec names no failure for the version byte, which is read past.
\<close>

definition decode_chunk :: "nat \<Rightarrow> 8 word list \<Rightarrow> DecodeError + chunk" where
  "decode_chunk vol bs =
     (if length bs \<noteq> header_length + 3 * vol then Inl MalformedPayload
      else
        let body = drop header_length bs
        in Inr \<lparr>chunk_x = decode_i32 (take 4 bs),
                chunk_z = decode_i32 (take 4 (drop 4 bs)),
                chunk_blocks = take vol body,
                chunk_metadata = take vol (drop vol body),
                chunk_light = take vol (drop (2 * vol) body)\<rparr>)"

text \<open>
  Modelled from the spec: a valid chunk payload. Its arrays have the length the chunk
  volume fixes, and its coordinates fit the header.
\<close>

definition valid_chunk :: "nat \<Rightarrow> chunk \<Rightarrow> bool" where
  "valid_chunk vol c =
     (length (chunk_blocks c) = vol \<and> length (chunk_metadata c) = vol
      \<and> length (chunk_light c) = vol
      \<and> - (2 ^ 31) \<le> chunk_x c \<and> chunk_x c < 2 ^ 31
      \<and> - (2 ^ 31) \<le> chunk_z c \<and> chunk_z c < 2 ^ 31)"

section \<open>Connection session\<close>

text \<open>
  Modelled from the spec: the session is not in the sources, which declare the messages
  only. The spec's words: states Unauthenticated, Authenticated, WorldJoined and
  Disconnected (terminal); a valid auth request authenticates, an invalid one keeps the
  state and is answered with a failure; a join request for a valid world joins it, a
  failed one is reported to the requester only; a leave request or a disconnect ends a
  joined session; a disconnect ends any session; a message outside the allowed set of
  the state is rejected with an error response and does not change the state; PING is
  accepted in every non-terminal state and answered with PONG echoing the original
  timestamp. What the spec leaves to collaborators or does not list is a parameter: the
  credential check, the worlds that exist, the allowed set of a state, the text of a
  message id, the numeric code of an error. A message id is the text of the count of
  messages the session has sent. A message that the state allows and that is none of the
  above is the work of other components: the step sends nothing for it.
\<close>

datatype session_state = Unauthenticated | Authenticated | WorldJoined | Disconnected

record session =
  sess_state :: session_state
  sess_sent :: nat

record collaborators =
  verify_credentials :: "jsval \<Rightarrow> jsval \<Rightarrow> bool"
  world_exists :: "jsval \<Rightarrow> bool"
  allowed :: "session_state \<Rightarrow> jsval \<Rightarrow> bool"
  message_id :: "nat \<Rightarrow> string"
  invalid_state_code :: real

datatype event = Receive jsval | Disconnect

definition tag_value :: "MessageType \<Rightarrow> jsval" where
  "tag_value t = VStr (MessageType_value t)"

text \<open>The members every message has (\<^verbatim>\<open>BaseMessage\<close>), the timestamp given as a value.\<close>

definition envelope :: "MessageType \<Rightarrow> string \<Rightarrow> jsval \<Rightarrow> (string \<times> jsval) list" where
  "envelope t i ts = [(''type'', tag_value t), (''id'', VStr i), (''timestamp'', ts)]"

text \<open>
  Modelled from the spec: sending a reply, which takes the next message id of the
  session.
\<close>

definition send :: "collaborators \<Rightarrow> session \<Rightarrow> MessageType \<Rightarrow> jsval \<Rightarrow> (string \<times> jsval) list
    \<Rightarrow> session \<times> jsval list" where
  "send co s t ts payload =
     (s\<lparr>sess_sent := Suc (sess_sent s)\<rparr>,
      [VObj (envelope t (message_id co (sess_sent s)) ts @ payload)])"

text \<open>
  Modelled from the spec: one step of the connection session, missing from the sources.
  It returns the session after the event and the messages sent back.
\<close>

definition session_step :: "collaborators \<Rightarrow> real \<Rightarrow> session \<Rightarrow> event \<Rightarrow> session \<times> jsval list" where
  "session_step co clock s e =
     (case e of
        Disconnect \<Rightarrow> (s\<lparr>sess_state := Disconnected\<rparr>, [])
      | Receive m \<Rightarrow>
          let tag = get_member m ''type'' in
          if sess_state s = Disconnected then (s, [])
          else if tag = tag_value PING then send co s PONG (get_member m ''timestamp'') []
          else if sess_state s = Unauthenticated \<and> tag = tag_value AUTH_REQUEST then
            if verify_credentials co (get_member m ''username'') (get_member m ''password'')
            then send co (s\<lparr>sess_state := Authenticated\<rparr>) AUTH_RESPONSE (VNum clock)
                   [(''success'', VBool True)]
            else send co s AUTH_RESPONSE (VNum clock) [(''success'', VBool False)]
          else if sess_state s = Authenticated \<and> tag = tag_value WORLD_JOIN_REQUEST then
            if world_exists co (get_member m ''worldId'')
            then send co (s\<lparr>sess_state := WorldJoined\<rparr>) WORLD_JOIN_RESPONSE (VNum clock)
                   [(''success'', VBool True)]
            else send co s WORLD_JOIN_RESPONSE (VNum clock) [(''success'', VBool False)]
          else if sess_state s = WorldJoined \<and> tag = tag_value WORLD_LEAVE_REQUEST then
            (s\<lparr>sess_state := Disconnected\<rparr>, [])
          else if allowed co (sess_state s) tag then (s, [])
          else send co s ERROR (VNum clock)
                 [(''error'', VStr ''InvalidState''), (''code'', VNum (invalid_state_code co))])"

section \<open>Example values\<close>

definition example_chunk_data_message :: jsval where
  "example_chunk_data_message =
     VObj [(''type'', VStr ''chunk_data''), (''id'', VStr ''m1''), (''timestamp'', VNum 0),
           (''x'', VNum 0), (''z'', VNum 0),
           (''blocks'', VBytes [0]), (''metadata'', VBytes [0]), (''light'', VBytes [0])]"

definition example_envelope :: jsval where
  "example_envelope =
     VObj [(''type'', VStr ''ping''), (''payload'', VObj []), (''timestamp'', VNum 0)]"

definition example_entity :: jsval where
  "example_entity =
     VObj [(''id'', VStr ''e1''), (''type'', VStr ''mob''),
           (''position'', VArr [VNum 0, VNum 64, VNum 0]),
           (''rotation'', VArr [VNum 0, VNum 0, VNum 0]),
           (''velocity'', VArr [VNum 0, VNum 0, VNum 0]),
           (''health'', VNum 20), (''maxHealth'', VNum 20),
           (''metadata'', VObj [])]"

definition example_chat_message_message :: jsval where
  "example_chat_message_message =
     VObj [(''type'', VStr ''chat_message''), (''id'', VStr ''m2''), (''timestamp'', VNum 5),
           (''sender'', VStr ''ada''), (''content'', VStr ''hello''),
           (''messageType'', VStr ''chat'')]"

definition example_chat_message :: jsval where
  "example_chat_message =
     VObj [(''id'', VStr ''c1''), (''sender'', VStr ''ada''), (''content'', VStr ''hello''),
           (''timestamp'', VStr ''2024-01-01T00:00:00Z''), (''type'', VStr ''system'')]"

definition example_world_create_request :: jsval where
  "example_world_create_request =
     VObj [(''type'', VStr ''world_create_request''), (''id'', VStr ''m3''),
           (''timestamp'', VNum 7),
           (''name'', VStr ''w''), (''seed'', VNum 12345),
           (''gameMode'', VStr ''hardcore''), (''settings'', VObj [])]"

definition example_player :: jsval where
  "example_player =
     VObj [(''id'', VStr ''p1''), (''username'', VStr ''ada''),
           (''position'', VArr [VNum 0, VNum 64, VNum 0]),
           (''rotation'', VArr [VNum 0, VNum 0, VNum 0]),
           (''health'', VNum 20), (''maxHealth'', VNum 20),
           (''hunger'', VNum 20), (''maxHunger'', VNum 20),
           (''experience'', VNum 0), (''level'', VNum 0),
           (''inventory'', VArr [VObj [(''id'', VNum 1), (''count'', VNum 64)]]),
           (''selectedSlot'', VNum 0),
           (''gameMode'', VStr ''creative'')]"

definition example_world_settings :: jsval where
  "example_world_settings =
     VObj [(''name'', VStr ''My World''), (''seed'', VNum 12345),
           (''gameMode'', VStr ''survival''), (''maxPlayers'', VNum 20),
           (''allowPvP'', VBool False), (''allowMobGriefing'', VBool True),
           (''keepInventory'', VBool False), (''naturalRegeneration'', VBool True),
           (''difficulty'', VStr ''normal'')]"

definition example_ping :: jsval where
  "example_ping =
     VObj [(''type'', VStr ''ping''), (''id'', VStr ''m4''), (''timestamp'', VNum 1234)]"

definition example_pong :: jsval where
  "example_pong =
     VObj [(''type'', VStr ''pong''), (''id'', VStr ''i''), (''timestamp'', VNum 1234)]"

definition example_collaborators :: collaborators where
  "example_collaborators =
     \<lparr>verify_credentials = (\<lambda>u p. False),
      world_exists = (\<lambda>w. False),
      allowed = (\<lambda>st t. False),
      message_id = (\<lambda>n. replicate (Suc n) (CHR ''i'')),
      invalid_state_code = 3\<rparr>"

definition example_chunk :: chunk where
  "example_chunk =
     \<lparr>chunk_x = -3, chunk_z = 70000,
      chunk_blocks = [1, 0], chunk_metadata = [0, 7], chunk_light = [240, 15]\<rparr>"

section \<open>Well-formed values\<close>

lemmas protocol_defs =
  extends_def BaseMessage_def tag_type_def
  AuthRequestMessage_def AuthResponseMessage_def
  WorldListRequestMessage_def WorldListResponseMessage_def
  WorldCreateRequestMessage_def WorldCreateResponseMessage_def
  WorldJoinRequestMessage_def WorldJoinResponseMessage_def
  PlayerJoinMessage_def PlayerLeaveMessage_def PlayerUpdateMessage_def
  ChunkRequestMessage_def ChunkDataMessage_def BlockUpdateMessage_def
  ChatMessageMessage_def CommandRequestMessage_def CommandResponseMessage_def
  PingMessage_def PongMessage_def ErrorMessage_def

text \<open>A value of an interface type has every required member, with the member's type.\<close>

lemma has_type_member:
  assumes "has_type (TObj fs) v" and "(k, False, t) \<in> set fs"
  shows "has_type t (get_member v k)"
proof -
  from assms(1) obtain kvs where v: "v = VObj kvs"
    by (cases v) simp_all
  with assms(1) have "list_all (\<lambda>(k, optional, t).
            case map_of kvs k of
              None \<Rightarrow> optional
            | Some x \<Rightarrow> (optional \<and> x = VUndefined) \<or> has_type t x) fs"
    by simp
  then have "\<forall>f\<in>set fs. case f of (k, optional, t) \<Rightarrow>
            (case map_of kvs k of
              None \<Rightarrow> optional
            | Some x \<Rightarrow> (optional \<and> x = VUndefined) \<or> has_type t x)"
    by (simp add: list_all_iff)
  from this assms(2) have "case (k, False, t) of (k, optional, t) \<Rightarrow>
            (case map_of kvs k of
              None \<Rightarrow> optional
            | Some x \<Rightarrow> (optional \<and> x = VUndefined) \<or> has_type t x)"
    by (rule bspec)
  then have "case map_of kvs k of None \<Rightarrow> False | Some x \<Rightarrow> has_type t x"
    by (simp split: option.splits)
  then show ?thesis
    by (simp add: v split: option.splits)
qed

lemma has_type_TStringD: "has_type TString x \<Longrightarrow> \<exists>s. x = VStr s"
  by (cases x) simp_all

lemma has_type_TNumberD: "has_type TNumber x \<Longrightarrow> \<exists>n. x = VNum n"
  by (cases x) simp_all

lemma has_type_TUint8ArrayD: "has_type TUint8Array x \<Longrightarrow> \<exists>bs. x = VBytes bs"
  by (cases x) simp_all

lemma has_type_TRecordAnyD:
  "has_type TRecordAny x \<Longrightarrow>
     (\<exists>kvs. x = VObj kvs) \<or> (\<exists>vs. x = VArr vs) \<or> (\<exists>bs. x = VBytes bs)"
  by (cases x) simp_all

lemma has_type_triple:
  assumes "has_type (TTuple [TNumber, TNumber, TNumber]) x"
  shows "\<exists>a b c. x = VArr [VNum a, VNum b, VNum c]"
proof -
  from assms obtain vs where x: "x = VArr vs" and len: "length vs = 3"
    and all: "list_all (\<lambda>(t, x). has_type t x) (zip [TNumber, TNumber, TNumber] vs)"
    by (cases x) simp_all
  from len obtain v1 v2 v3 where vs: "vs = [v1, v2, v3]"
    by (auto simp: length_Suc_conv numeral_3_eq_3)
  from all have "has_type TNumber v1" "has_type TNumber v2" "has_type TNumber v3"
    by (simp_all add: vs)
  then obtain a b c where "v1 = VNum a" "v2 = VNum b" "v3 = VNum c"
    by (blast dest: has_type_TNumberD)
  then show ?thesis
    by (simp add: x vs)
qed

section \<open>The block unit of a chunk payload\<close>

lemma uint8array_get_set:
  "i < length a \<Longrightarrow> uint8array_get (uint8array_set a i n) i = Some (n mod 256)"
  by (simp add: uint8array_get_def uint8array_set_def uint_word_of_int)

lemma ChunkDataMessage_members:
  "ChunkDataMessage =
     [req ''type'' (TLit ''chunk_data''), req ''id'' TString, req ''timestamp'' TNumber,
      req ''x'' TNumber, req ''z'' TNumber,
      req ''blocks'' TUint8Array, req ''metadata'' TUint8Array, req ''light'' TUint8Array]"
  by (simp add: ChunkDataMessage_def extends_def BaseMessage_def tag_type_def)

text \<open>
  C1, as the code has it. The block-id array of a chunk payload (\<^verbatim>\<open>blocks\<close> of
  \<^verbatim>\<open>ChunkDataMessage\<close> and of \<^verbatim>\<open>ChunkData\<close>) is a \<^verbatim>\<open>Uint8Array\<close>: each element
  holds a block id stored into it modulo 256, so it can hold every id in 0..=255 (0
  meaning empty) and no other. The claim's range 0..=4095 does not fit: see the
  counterexample below.
\<close>

theorem block_unit_is_a_byte:
  assumes "has_type (TObj ChunkDataMessage) m \<or> has_type (TObj ChunkData) m"
  shows "\<exists>bs. get_member m ''blocks'' = VBytes bs
    \<and> (\<forall>i b. i < length bs \<longrightarrow> uint8array_get (uint8array_set bs i b) i = Some (b mod 256))
    \<and> (\<forall>i b. i < length bs \<and> 0 \<le> b \<and> b \<le> 255
          \<longrightarrow> uint8array_get (uint8array_set bs i b) i = Some b)"
proof -
  from assms have "has_type TUint8Array (get_member m ''blocks'')"
  proof
    assume "has_type (TObj ChunkDataMessage) m"
    then show ?thesis
      by (rule has_type_member) (simp add: ChunkDataMessage_members)
  next
    assume "has_type (TObj ChunkData) m"
    then show ?thesis
      by (rule has_type_member) (simp add: ChunkData_def)
  qed
  then obtain bs where bs: "get_member m ''blocks'' = VBytes bs"
    by (blast dest: has_type_TUint8ArrayD)
  have "uint8array_get (uint8array_set bs i b) i = Some b"
    if "i < length bs" "0 \<le> b" "b \<le> 255" for i b
    using that by (simp add: uint8array_get_set)
  with bs show ?thesis
    by (auto simp: uint8array_get_set)
qed

theorem block_unit_is_a_byte_witness:
  "has_type (TObj ChunkDataMessage) example_chunk_data_message
   \<and> get_member example_chunk_data_message ''blocks'' = VBytes [0]
   \<and> uint8array_get (uint8array_set [0] 0 200) 0 = Some 200"
  using block_unit_is_a_byte [of example_chunk_data_message]
  by (simp add: example_chunk_data_message_def ChunkDataMessage_members
      uint8array_get_def uint8array_set_def)

text \<open>
  The block id 4095 stored into the block-id array of a well-formed chunk payload reads
  back as 255.
\<close>

theorem block_id_4095_counterexample:
  "has_type (TObj ChunkDataMessage) example_chunk_data_message
   \<and> get_member example_chunk_data_message ''blocks'' = VBytes [0]
   \<and> uint8array_get (uint8array_set [0] 0 4095) 0 = Some 255
   \<and> uint8array_get (uint8array_set [0] 0 4095) 0 \<noteq> Some 4095"
  by (simp add: example_chunk_data_message_def ChunkDataMessage_members
      uint8array_get_def uint8array_set_def)

section \<open>Type tags and payload shapes\<close>

lemma MessageType_members_all: "set MessageType_members = UNIV"
proof -
  have "t \<in> set MessageType_members" for t
    by (cases t) (simp_all add: MessageType_members_def)
  then show ?thesis by blast
qed

lemma MessageType_ty_tag: "has_type MessageType_ty (VStr (MessageType_value t))"
  by (cases t) (simp_all add: MessageType_ty_def MessageType_members_def tag_type_def)

lemma tag_type_eq: "tag_type a = tag_type b \<longleftrightarrow> a = b"
  by (cases a; cases b; simp add: tag_type_def)

lemma shape_tags:
  "member_type AuthRequestMessage ''type'' = Some (tag_type AUTH_REQUEST)"
  "member_type AuthResponseMessage ''type'' = Some (tag_type AUTH_RESPONSE)"
  "member_type WorldListRequestMessage ''type'' = Some (tag_type WORLD_LIST_REQUEST)"
  "member_type WorldListResponseMessage ''type'' = Some (tag_type WORLD_LIST_RESPONSE)"
  "member_type WorldCreateRequestMessage ''type'' = Some (tag_type WORLD_CREATE_REQUEST)"
  "member_type WorldCreateResponseMessage ''type'' = Some (tag_type WORLD_CREATE_RESPONSE)"
  "member_type WorldJoinRequestMessage ''type'' = Some (tag_type WORLD_JOIN_REQUEST)"
  "member_type WorldJoinResponseMessage ''type'' = Some (tag_type WORLD_JOIN_RESPONSE)"
  "member_type PlayerJoinMessage ''type'' = Some (tag_type PLAYER_JOIN)"
  "member_type PlayerLeaveMessage ''type'' = Some (tag_type PLAYER_LEAVE)"
  "member_type PlayerUpdateMessage ''type'' = Some (tag_type PLAYER_UPDATE)"
  "member_type ChunkRequestMessage ''type'' = Some (tag_type CHUNK_REQUEST)"
  "member_type ChunkDataMessage ''type'' = Some (tag_type CHUNK_DATA)"
  "member_type BlockUpdateMessage ''type'' = Some (tag_type BLOCK_UPDATE)"
  "member_type ChatMessageMessage ''type'' = Some (tag_type CHAT_MESSAGE)"
  "member_type CommandRequestMessage ''type'' = Some (tag_type COMMAND_REQUEST)"
  "member_type CommandResponseMessage ''type'' = Some (tag_type COMMAND_RESPONSE)"
  "member_type PingMessage ''type'' = Some (tag_type PING)"
  "member_type PongMessage ''type'' = Some (tag_type PONG)"
  "member_type ErrorMessage ''type'' = Some (tag_type ERROR)"
  by (simp_all add: member_type_def protocol_defs)

text \<open>
  C2. The claim: every member of \<^verbatim>\<open>MessageType\<close> has exactly one payload shape in the
  union \<^verbatim>\<open>NetworkMessage\<close>. The code: the enumeration has 32 members, the union 20
  alternatives, each with a tag of its own; the twelve tags listed here, the first of
  them \<^verbatim>\<open>world_leave_request\<close>, have no shape at all.
\<close>

theorem union_misses_tags:
  "shapes_for WORLD_LEAVE_REQUEST = []
   \<and> filter (\<lambda>t. length (shapes_for t) \<noteq> 1) MessageType_members =
       [WORLD_LEAVE_REQUEST, WORLD_DELETE_REQUEST, PLAYER_INVENTORY_UPDATE,
        ENTITY_SPAWN, ENTITY_UPDATE, ENTITY_DESPAWN,
        CRAFTING_REQUEST, CRAFTING_RESPONSE, INVENTORY_ACTION, HEALTH_UPDATE,
        EXPERIENCE_UPDATE, SERVER_STATS]
   \<and> filter (\<lambda>t. shapes_for t = []) MessageType_members =
       filter (\<lambda>t. length (shapes_for t) \<noteq> 1) MessageType_members
   \<and> length MessageType_members = 32 \<and> length NetworkMessage = 20"
  by (simp add: shapes_for_def NetworkMessage_def MessageType_members_def shape_tags tag_type_eq)

section \<open>Envelopes\<close>

text \<open>
  C3. The claim: every envelope type of the shared code exposes a message id. The code:
  \<^verbatim>\<open>BaseMessage\<close> of protocol.ts, and with it every alternative of the union, has the
  members \<^verbatim>\<open>type\<close>, \<^verbatim>\<open>id\<close> and \<^verbatim>\<open>timestamp\<close>; the interface
  \<^verbatim>\<open>NetworkMessage\<close> of types.ts has \<^verbatim>\<open>type\<close>, \<^verbatim>\<open>payload\<close> and
  \<^verbatim>\<open>timestamp\<close> and no \<^verbatim>\<open>id\<close>, and a well-formed value of it carries none.
\<close>

theorem types_envelope_has_no_id:
  "member_names types_NetworkMessage = [''type'', ''payload'', ''timestamp'']
   \<and> member_type types_NetworkMessage ''id'' = None
   \<and> has_type (TObj types_NetworkMessage) example_envelope
   \<and> get_member example_envelope ''id'' = VUndefined
   \<and> member_names BaseMessage = [''type'', ''id'', ''timestamp'']
   \<and> member_type BaseMessage ''id'' = Some TString
   \<and> list_all (\<lambda>s. member_type s ''id'' = Some TString) NetworkMessage"
  by (simp add: member_names_def member_type_def types_NetworkMessage_def example_envelope_def
      NetworkMessage_def protocol_defs)

section \<open>Entities\<close>

lemma Entity_members:
  "member_names Entity =
     [''id'', ''type'', ''position'', ''rotation'', ''velocity'', ''health'', ''maxHealth'',
      ''metadata'']"
  "number_members Entity = [''health'', ''maxHealth'']"
  by (simp_all add: member_names_def number_members_def Entity_def)

text \<open>
  C4, as the code has it. Every entity carries an identifier, a kind tag (any string), a
  transform (position, rotation, velocity: three numbers each), health and maximal
  health, and an open metadata record (\<^verbatim>\<open>Record<string, any>\<close>: an object, an array or
  a typed array). These eight members are the whole entity data
  model: its only numeric members are \<^verbatim>\<open>health\<close> and \<^verbatim>\<open>maxHealth\<close>, and it declares
  no authority tick counter.
\<close>

theorem entity_members:
  assumes "has_type (TObj Entity) e"
  shows "(\<exists>s. get_member e ''id'' = VStr s)
    \<and> (\<exists>s. get_member e ''type'' = VStr s)
    \<and> (\<exists>a b c. get_member e ''position'' = VArr [VNum a, VNum b, VNum c])
    \<and> (\<exists>a b c. get_member e ''rotation'' = VArr [VNum a, VNum b, VNum c])
    \<and> (\<exists>a b c. get_member e ''velocity'' = VArr [VNum a, VNum b, VNum c])
    \<and> (\<exists>n. get_member e ''health'' = VNum n)
    \<and> (\<exists>n. get_member e ''maxHealth'' = VNum n)
    \<and> ((\<exists>kvs. get_member e ''metadata'' = VObj kvs)
        \<or> (\<exists>vs. get_member e ''metadata'' = VArr vs)
        \<or> (\<exists>bs. get_member e ''metadata'' = VBytes bs))
    \<and> member_names Entity =
        [''id'', ''type'', ''position'', ''rotation'', ''velocity'', ''health'', ''maxHealth'',
         ''metadata'']
    \<and> number_members Entity = [''health'', ''maxHealth'']"
proof -
  have "has_type TString (get_member e ''id'')"
    using assms by (rule has_type_member) (simp add: Entity_def)
  moreover have "has_type TString (get_member e ''type'')"
    using assms by (rule has_type_member) (simp add: Entity_def)
  moreover have "has_type (TTuple [TNumber, TNumber, TNumber]) (get_member e ''position'')"
    using assms by (rule has_type_member) (simp add: Entity_def)
  moreover have "has_type (TTuple [TNumber, TNumber, TNumber]) (get_member e ''rotation'')"
    using assms by (rule has_type_member) (simp add: Entity_def)
  moreover have "has_type (TTuple [TNumber, TNumber, TNumber]) (get_member e ''velocity'')"
    using assms by (rule has_type_member) (simp add: Entity_def)
  moreover have "has_type TNumber (get_member e ''health'')"
    using assms by (rule has_type_member) (simp add: Entity_def)
  moreover have "has_type TNumber (get_member e ''maxHealth'')"
    using assms by (rule has_type_member) (simp add: Entity_def)
  moreover have "has_type TRecordAny (get_member e ''metadata'')"
    using assms by (rule has_type_member) (simp add: Entity_def)
  ultimately show ?thesis
    by (intro conjI Entity_members has_type_TStringD has_type_TNumberD has_type_triple
        has_type_TRecordAnyD)
qed

theorem entity_members_witness:
  "has_type (TObj Entity) example_entity
   \<and> get_member example_entity ''id'' = VStr ''e1''
   \<and> get_member example_entity ''health'' = VNum 20
   \<and> get_member example_entity ''metadata'' = VObj []"
  using entity_members [of example_entity]
  by (simp add: example_entity_def Entity_def)

text \<open>
  A well-formed entity with the declared members and nothing else, its metadata empty:
  the only numbers it holds are its health and maximal health, so it carries no tick
  counter.
\<close>

theorem entity_without_tick_counterexample:
  "has_type (TObj Entity) example_entity
   \<and> member_keys example_entity = member_names Entity
   \<and> number_keys example_entity = [''health'', ''maxHealth'']
   \<and> number_members Entity = [''health'', ''maxHealth'']
   \<and> get_member example_entity ''metadata'' = VObj []"
  by (simp add: example_entity_def Entity_def member_names_def number_members_def
      number_keys_def)

section \<open>Closed and open string members\<close>

lemma has_type_chat_kind:
  assumes "has_type (TUnion [TLit ''chat'', TLit ''system'', TLit ''command'']) x"
  shows "x \<in> {VStr ''chat'', VStr ''system'', VStr ''command''}"
  using assms by auto

lemma has_type_GameMode:
  assumes "has_type GameMode_ty x"
  shows "x \<in> {VStr ''survival'', VStr ''creative''}"
  using assms by (auto simp: GameMode_ty_def)

text \<open>
  C8. The message type of a chat message is one of \<^verbatim>\<open>'chat'\<close>, \<^verbatim>\<open>'system'\<close> and
  \<^verbatim>\<open>'command'\<close>: a value with any other is not a well-formed
  \<^verbatim>\<open>ChatMessageMessage\<close> (member \<^verbatim>\<open>messageType\<close>) nor a well-formed
  \<^verbatim>\<open>ChatMessage\<close> (member \<^verbatim>\<open>type\<close>), and the two declare the same closed set.
\<close>

theorem chat_message_type_closed:
  "(has_type (TObj ChatMessageMessage) m
      \<longrightarrow> get_member m ''messageType'' \<in> {VStr ''chat'', VStr ''system'', VStr ''command''})
   \<and> (has_type (TObj ChatMessage) c
      \<longrightarrow> get_member c ''type'' \<in> {VStr ''chat'', VStr ''system'', VStr ''command''})
   \<and> member_type ChatMessageMessage ''messageType''
       = Some (TUnion [TLit ''chat'', TLit ''system'', TLit ''command''])
   \<and> member_type ChatMessage ''type'' = member_type ChatMessageMessage ''messageType''"
proof (intro conjI impI)
  assume "has_type (TObj ChatMessageMessage) m"
  then have "has_type (TUnion [TLit ''chat'', TLit ''system'', TLit ''command''])
      (get_member m ''messageType'')"
    by (rule has_type_member) (simp add: ChatMessageMessage_def extends_def BaseMessage_def)
  then show "get_member m ''messageType'' \<in> {VStr ''chat'', VStr ''system'', VStr ''command''}"
    by (rule has_type_chat_kind)
next
  assume "has_type (TObj ChatMessage) c"
  then have "has_type (TUnion [TLit ''chat'', TLit ''system'', TLit ''command''])
      (get_member c ''type'')"
    by (rule has_type_member) (simp add: ChatMessage_def)
  then show "get_member c ''type'' \<in> {VStr ''chat'', VStr ''system'', VStr ''command''}"
    by (rule has_type_chat_kind)
next
  show "member_type ChatMessageMessage ''messageType''
       = Some (TUnion [TLit ''chat'', TLit ''system'', TLit ''command''])"
    by (simp add: member_type_def ChatMessageMessage_def extends_def BaseMessage_def)
next
  show "member_type ChatMessage ''type'' = member_type ChatMessageMessage ''messageType''"
    by (simp add: member_type_def ChatMessage_def ChatMessageMessage_def extends_def
        BaseMessage_def)
qed

theorem chat_message_type_closed_witness:
  "has_type (TObj ChatMessageMessage) example_chat_message_message
   \<and> get_member example_chat_message_message ''messageType'' = VStr ''chat''
   \<and> has_type (TObj ChatMessage) example_chat_message
   \<and> get_member example_chat_message ''type'' = VStr ''system''"
  using chat_message_type_closed [of example_chat_message_message example_chat_message]
  by (simp add: example_chat_message_message_def example_chat_message_def
      ChatMessageMessage_def ChatMessage_def extends_def BaseMessage_def tag_type_def
      MessageType_ty_def MessageType_members_def)

text \<open>
  C9. A \<^verbatim>\<open>world_create_request\<close> declares \<^verbatim>\<open>gameMode\<close> as a string: the request
  with game mode \<^verbatim>\<open>'hardcore'\<close>, which is no member of \<^verbatim>\<open>GameMode\<close>, is well-formed.
  \<^verbatim>\<open>Player.gameMode\<close> and \<^verbatim>\<open>WorldSettings.gameMode\<close> are declared \<^verbatim>\<open>GameMode\<close>:
  in a well-formed player or world settings the game mode is \<^verbatim>\<open>'survival'\<close> or
  \<^verbatim>\<open>'creative'\<close>.
\<close>

theorem world_create_game_mode_open:
  "has_type (TObj WorldCreateRequestMessage) example_world_create_request
   \<and> get_member example_world_create_request ''gameMode'' = VStr ''hardcore''
   \<and> ''hardcore'' \<notin> {''survival'', ''creative''}
   \<and> range GameMode_value = {''survival'', ''creative''}
   \<and> member_type WorldCreateRequestMessage ''gameMode'' = Some TString
   \<and> member_type Player ''gameMode'' = Some GameMode_ty
   \<and> member_type WorldSettings ''gameMode'' = Some GameMode_ty
   \<and> (has_type (TObj Player) p
        \<longrightarrow> get_member p ''gameMode'' \<in> {VStr ''survival'', VStr ''creative''})
   \<and> (has_type (TObj WorldSettings) w
        \<longrightarrow> get_member w ''gameMode'' \<in> {VStr ''survival'', VStr ''creative''})"
proof (intro conjI impI)
  show "has_type (TObj WorldCreateRequestMessage) example_world_create_request"
    by (simp add: example_world_create_request_def WorldCreateRequestMessage_def extends_def
        BaseMessage_def tag_type_def)
  show "get_member example_world_create_request ''gameMode'' = VStr ''hardcore''"
    by (simp add: example_world_create_request_def)
  show "''hardcore'' \<notin> {''survival'', ''creative''}"
    by simp
  show "range GameMode_value = {''survival'', ''creative''}"
  proof -
    have "UNIV = {SURVIVAL, CREATIVE}"
      using GameMode.exhaust by blast
    then show ?thesis
      by (metis GameMode_value.simps image_empty image_insert)
  qed
  show "member_type WorldCreateRequestMessage ''gameMode'' = Some TString"
    by (simp add: member_type_def WorldCreateRequestMessage_def extends_def BaseMessage_def)
  show "member_type Player ''gameMode'' = Some GameMode_ty"
    by (simp add: member_type_def Player_def)
  show "member_type WorldSettings ''gameMode'' = Some GameMode_ty"
    by (simp add: member_type_def WorldSettings_def)
next
  assume "has_type (TObj Player) p"
  then have "has_type GameMode_ty (get_member p ''gameMode'')"
    by (rule has_type_member) (simp add: Player_def)
  then show "get_member p ''gameMode'' \<in> {VStr ''survival'', VStr ''creative''}"
    by (rule has_type_GameMode)
next
  assume "has_type (TObj WorldSettings) w"
  then have "has_type GameMode_ty (get_member w ''gameMode'')"
    by (rule has_type_member) (simp add: WorldSettings_def)
  then show "get_member w ''gameMode'' \<in> {VStr ''survival'', VStr ''creative''}"
    by (rule has_type_GameMode)
qed

theorem world_create_game_mode_open_witness:
  "has_type (TObj Player) example_player
   \<and> get_member example_player ''gameMode'' = VStr ''creative''
   \<and> has_type (TObj WorldSettings) example_world_settings
   \<and> get_member example_world_settings ''gameMode'' = VStr ''survival''"
  using world_create_game_mode_open [of example_player example_world_settings]
  by (simp add: example_player_def example_world_settings_def Player_def WorldSettings_def
      InventoryItem_def GameMode_ty_def)

section \<open>The timestamp of a PONG\<close>

lemma PongMessage_members:
  "PongMessage = [req ''type'' (TLit ''pong''), req ''id'' TString, req ''timestamp'' TNumber]"
  by (simp add: PongMessage_def extends_def BaseMessage_def tag_type_def)

text \<open>
  C10. \<^verbatim>\<open>PongMessage\<close> declares \<^verbatim>\<open>timestamp\<close> again, with the type it has in
  \<^verbatim>\<open>BaseMessage\<close>: the interface has the three members of the envelope and no other,
  one of them named \<^verbatim>\<open>timestamp\<close>, its only number. A well-formed PONG is a
  well-formed envelope and holds one number under \<^verbatim>\<open>timestamp\<close>: the echoed timestamp
  and the envelope's are the same value.
\<close>

theorem pong_has_one_timestamp:
  "member_names PongMessage = member_names BaseMessage
   \<and> member_names PongMessage = [''type'', ''id'', ''timestamp'']
   \<and> length (filter (\<lambda>f. fst f = ''timestamp'') PongMessage) = 1
   \<and> member_type PongMessage ''timestamp'' = member_type BaseMessage ''timestamp''
   \<and> number_members PongMessage = [''timestamp'']
   \<and> (has_type (TObj PongMessage) p
        \<longrightarrow> has_type (TObj BaseMessage) p \<and> (\<exists>n. get_member p ''timestamp'' = VNum n))"
proof (intro conjI impI)
  assume p: "has_type (TObj PongMessage) p"
  then have "has_type TNumber (get_member p ''timestamp'')"
    by (rule has_type_member) (simp add: PongMessage_members)
  then show "\<exists>n. get_member p ''timestamp'' = VNum n"
    by (rule has_type_TNumberD)
  from p obtain kvs where kvs: "p = VObj kvs"
    by (cases p) simp_all
  from p have "has_type MessageType_ty (VStr ''pong'')"
    using MessageType_ty_tag [of PONG] by simp
  with p show "has_type (TObj BaseMessage) p"
    by (auto simp: kvs PongMessage_members BaseMessage_def split: option.splits)
qed (simp_all add: PongMessage_members member_names_def member_type_def number_members_def
    BaseMessage_def)

theorem pong_has_one_timestamp_witness:
  "has_type (TObj PongMessage) example_pong
   \<and> has_type (TObj BaseMessage) example_pong
   \<and> get_member example_pong ''timestamp'' = VNum 1234"
  using pong_has_one_timestamp [of example_pong]
  by (simp add: example_pong_def PongMessage_members)

section \<open>Round trip of the chunk codec\<close>

lemma bytes_of_word32:
  "(push_bit 24 (ucast (ucast (drop_bit 24 w) :: 8 word))
    OR push_bit 16 (ucast (ucast (drop_bit 16 w) :: 8 word))
    OR push_bit 8 (ucast (ucast (drop_bit 8 w) :: 8 word))
    OR ucast (ucast w :: 8 word) :: 32 word) = w"
  (is "?packed = w")
proof (rule bit_word_eqI)
  fix n
  assume "n < LENGTH(32)"
  then consider "n < 8" | "8 \<le> n" "n < 16" | "16 \<le> n" "n < 24" | "24 \<le> n" "n < 32"
    by fastforce
  then show "bit ?packed n = bit w n"
    by cases (auto simp: bit_simps)
qed

lemma length_encode_i32: "length (encode_i32 n) = 4"
  by (simp add: encode_i32_def Let_def)

lemma decode_encode_i32:
  assumes "- (2 ^ 31) \<le> n" and "n < 2 ^ 31"
  shows "decode_i32 (encode_i32 n) = n"
proof -
  have "decode_i32 (encode_i32 n) = sint (word_of_int n :: 32 word)"
    by (simp add: encode_i32_def Let_def bytes_of_word32)
  also have "\<dots> = signed_take_bit 31 n"
    by (simp add: signed_of_int)
  also have "\<dots> = n"
    using assms by (intro signed_take_bit_int_eq_self) simp_all
  finally show ?thesis .
qed

lemma length_encode_chunk:
  "length (encode_chunk c) =
     header_length + length (chunk_blocks c) + length (chunk_metadata c) + length (chunk_light c)"
  by (simp add: encode_chunk_def header_length_def length_encode_i32)

text \<open>The decoder fails on a buffer of the wrong length, and only then.\<close>

lemma decode_chunk_malformed:
  "decode_chunk vol bs = Inl e \<longleftrightarrow> e = MalformedPayload \<and> length bs \<noteq> header_length + 3 * vol"
  by (auto simp: decode_chunk_def Let_def)

text \<open>The record is a well-formed \<^verbatim>\<open>ChunkData\<close>.\<close>

lemma js_of_chunk_well_formed: "has_type (TObj ChunkData) (js_of_chunk c)"
  by (simp add: ChunkData_def js_of_chunk_def)

text \<open>
  C5. For every valid chunk payload (arrays of the chunk volume's length, coordinates
  that fit the header), decoding the bytes that encoding produced gives the payload
  back: \<open>decode (encode chunk) = chunk\<close>, and not a \<open>DecodeError\<close>.
\<close>

theorem chunk_round_trip:
  assumes "valid_chunk vol c"
  shows "decode_chunk vol (encode_chunk c) = Inr c"
proof -
  from assms have len: "length (chunk_blocks c) = vol" "length (chunk_metadata c) = vol"
      "length (chunk_light c) = vol"
    and x: "decode_i32 (encode_i32 (chunk_x c)) = chunk_x c"
    and z: "decode_i32 (encode_i32 (chunk_z c)) = chunk_z c"
    by (simp_all add: valid_chunk_def decode_encode_i32)
  have total: "length (encode_chunk c) = header_length + 3 * vol"
    by (simp add: length_encode_chunk len)
  have hx: "take 4 (encode_chunk c) = encode_i32 (chunk_x c)"
    by (simp add: encode_chunk_def length_encode_i32)
  have hz: "take 4 (drop 4 (encode_chunk c)) = encode_i32 (chunk_z c)"
    by (simp add: encode_chunk_def length_encode_i32)
  have body: "drop header_length (encode_chunk c)
      = chunk_blocks c @ chunk_metadata c @ chunk_light c"
    by (simp add: encode_chunk_def header_length_def length_encode_i32)
  show ?thesis
    by (simp add: decode_chunk_def total Let_def hx hz body x z len)
qed

theorem chunk_round_trip_witness:
  "valid_chunk 2 example_chunk
   \<and> encode_chunk example_chunk =
       [255, 255, 255, 253, 0, 1, 17, 112, 1, 1, 0, 0, 7, 240, 15]
   \<and> decode_chunk 2 (encode_chunk example_chunk) = Inr example_chunk"
  using chunk_round_trip [of 2 example_chunk]
  by (simp add: valid_chunk_def example_chunk_def encode_chunk_def encode_i32_def
      chunk_format_version_def)

section \<open>PING and PONG\<close>

lemma PingMessage_members:
  "PingMessage = [req ''type'' (TLit ''ping''), req ''id'' TString, req ''timestamp'' TNumber]"
  by (simp add: PingMessage_def extends_def BaseMessage_def tag_type_def)

lemma disconnected_is_terminal:
  "sess_state s = Disconnected \<Longrightarrow> session_step co clock s e = (s, [])"
  by (cases e) (simp_all add: session_step_def)

text \<open>
  Whatever the session answers is a well-formed alternative of the union
  \<^verbatim>\<open>NetworkMessage\<close> of protocol.ts.
\<close>

lemma send_well_formed:
  assumes "i \<in> set NetworkMessage"
    and "has_type (TObj i) (VObj (envelope t (message_id co (sess_sent s)) ts @ payload))"
  shows "list_all (has_type NetworkMessage_ty) (snd (send co s t ts payload))"
  using assms by (auto simp: send_def NetworkMessage_ty_def list_ex_iff)

lemma session_replies_well_formed:
  assumes "has_type TNumber (get_member m ''timestamp'')"
  shows "list_all (has_type NetworkMessage_ty) (snd (session_step co clock s (Receive m)))"
proof -
  from assms obtain n where ts: "get_member m ''timestamp'' = VNum n"
    by (blast dest: has_type_TNumberD)
  have pong: "list_all (has_type NetworkMessage_ty) (snd (send co s PONG (VNum n) []))"
    by (rule send_well_formed [of PongMessage])
      (simp_all add: NetworkMessage_def PongMessage_members envelope_def tag_value_def)
  have auth: "list_all (has_type NetworkMessage_ty)
      (snd (send co s' AUTH_RESPONSE (VNum clock) [(''success'', VBool b)]))" for s' b
    by (rule send_well_formed [of AuthResponseMessage])
      (simp_all add: NetworkMessage_def AuthResponseMessage_def extends_def BaseMessage_def
        tag_type_def envelope_def tag_value_def)
  have join: "list_all (has_type NetworkMessage_ty)
      (snd (send co s' WORLD_JOIN_RESPONSE (VNum clock) [(''success'', VBool b)]))" for s' b
    by (rule send_well_formed [of WorldJoinResponseMessage])
      (simp_all add: NetworkMessage_def WorldJoinResponseMessage_def extends_def BaseMessage_def
        tag_type_def envelope_def tag_value_def)
  have err: "list_all (has_type NetworkMessage_ty)
      (snd (send co s ERROR (VNum clock)
         [(''error'', VStr ''InvalidState''), (''code'', VNum (invalid_state_code co))]))"
    by (rule send_well_formed [of ErrorMessage])
      (simp_all add: NetworkMessage_def ErrorMessage_def extends_def BaseMessage_def
        tag_type_def envelope_def tag_value_def)
  show ?thesis
    by (simp add: session_step_def Let_def ts pong auth join err)
qed

text \<open>
  C7. A PING received in a state that is not \<open>Disconnected\<close> is answered with one
  message, a well-formed PONG whose \<^verbatim>\<open>timestamp\<close> is the PING's; the state stays.
\<close>

theorem ping_answered_with_pong:
  assumes "sess_state s \<noteq> Disconnected" and "has_type (TObj PingMessage) m"
  shows "\<exists>p. snd (session_step co clock s (Receive m)) = [p]
    \<and> has_type (TObj PongMessage) p
    \<and> get_member p ''type'' = VStr ''pong''
    \<and> get_member p ''timestamp'' = get_member m ''timestamp''
    \<and> sess_state (fst (session_step co clock s (Receive m))) = sess_state s"
proof -
  have "has_type (TLit ''ping'') (get_member m ''type'')"
    using assms(2) by (rule has_type_member) (simp add: PingMessage_members)
  then have tag: "get_member m ''type'' = tag_value PING"
    by (simp add: tag_value_def)
  have "has_type TNumber (get_member m ''timestamp'')"
    using assms(2) by (rule has_type_member) (simp add: PingMessage_members)
  then obtain n where ts: "get_member m ''timestamp'' = VNum n"
    by (blast dest: has_type_TNumberD)
  have step: "session_step co clock s (Receive m) = send co s PONG (VNum n) []"
    using assms(1) by (simp add: session_step_def tag ts)
  show ?thesis
    by (simp add: step send_def envelope_def tag_value_def ts PongMessage_members)
qed

theorem ping_answered_with_pong_witness:
  "Unauthenticated \<noteq> Disconnected
   \<and> has_type (TObj PingMessage) example_ping
   \<and> session_step example_collaborators 99 \<lparr>sess_state = Unauthenticated, sess_sent = 0\<rparr>
        (Receive example_ping)
      = (\<lparr>sess_state = Unauthenticated, sess_sent = 1\<rparr>, [example_pong])
   \<and> get_member example_pong ''timestamp'' = get_member example_ping ''timestamp''"
  using ping_answered_with_pong [of "\<lparr>sess_state = Unauthenticated, sess_sent = 0\<rparr>"
      example_ping example_collaborators 99]
  by (simp add: example_ping_def example_pong_def example_collaborators_def PingMessage_members
      session_step_def send_def envelope_def tag_value_def)

end
